theory Spec2Isabelle
  imports Complex_Main "HOL-Library.Word"
begin

section \<open>JavaScript strings\<close>

text \<open>
  A JavaScript string is a sequence of UTF-16 code units. The component compares code
  units with the braces of a placeholder, with the two zero-width markers U+200B and
  U+FEFF, and (in \<open>String.prototype.trim\<close>) with the white space code units, so a code
  unit is a 16-bit word and a string a list of them.
\<close>

type_synonym jschar = "16 word"
type_synonym jsstring = "jschar list"

definition ascii :: "string \<Rightarrow> jsstring" where
  "ascii s = map of_char s"

definition LBRACE :: jschar where "LBRACE = 0x7B"
definition RBRACE :: jschar where "RBRACE = 0x7D"
definition LBRACKET :: jschar where "LBRACKET = 0x5B"
definition RBRACKET :: jschar where "RBRACKET = 0x5D"
definition ZWSP :: jschar where "ZWSP = 0x200B"
definition ZWNBSP :: jschar where "ZWNBSP = 0xFEFF"

text \<open>\<open>s.slice(a, b)\<close> for indices \<open>0 \<le> a\<close>, \<open>0 \<le> b\<close>, and \<open>s.slice(a)\<close>.\<close>

definition slice :: "jsstring \<Rightarrow> nat \<Rightarrow> nat \<Rightarrow> jsstring" where
  "slice s a b = take (b - a) (drop a s)"

definition slice_from :: "jsstring \<Rightarrow> nat \<Rightarrow> jsstring" where
  "slice_from s a = drop a s"

section \<open>Property reads and writes on plain objects\<close>

text \<open>
  \<open>props.config.fields\<close>, \<open>fieldValues.value\<close> and \<open>OPTIONS.value\<close> are plain objects, whose
  prototype is \<open>Object.prototype\<close>. A map holds the own properties of such an object.
  \<^item> A read \<open>obj[key]\<close> gives the own property when there is one; otherwise, when \<open>key\<close>
    names a property of \<open>Object.prototype\<close>, what is inherited, a function or an object,
    which is truthy and is not a string; otherwise \<open>undefined\<close>.
  \<^item> A write \<open>obj[key] = v\<close> of a string makes or replaces an own property, except for
    the key \<open>__proto__\<close> on an object without such an own property: the setter of
    \<open>Object.prototype\<close> takes the write and, for a string, does nothing.
\<close>

definition object_prototype_names :: "jsstring list" where
  "object_prototype_names =
     map ascii [''constructor'', ''__defineGetter__'', ''__defineSetter__'',
                ''hasOwnProperty'', ''__lookupGetter__'', ''__lookupSetter__'',
                ''isPrototypeOf'', ''propertyIsEnumerable'', ''toString'', ''valueOf'',
                ''__proto__'', ''toLocaleString'']"


datatype 'a JsProp = Undefined | Own 'a | Inherited

definition js_get :: "(jsstring \<rightharpoonup> 'a) \<Rightarrow> jsstring \<Rightarrow> 'a JsProp" where
  "js_get obj key =
     (case obj key of
        Some v \<Rightarrow> Own v
      | None \<Rightarrow> (if key \<in> set object_prototype_names then Inherited else Undefined))"

definition js_set ::
  "(jsstring \<rightharpoonup> jsstring) \<Rightarrow> jsstring \<Rightarrow> jsstring \<Rightarrow> (jsstring \<rightharpoonup> jsstring)"
where
  "js_set obj key v =
     (if key = ascii ''__proto__'' \<and> obj key = None then obj else obj(key \<mapsto> v))"

section \<open>Configuration and segments\<close>

text \<open>
  \<open>Field = InputField | SelectField\<close>; \<open>fields_cfg\<close> is the \<open>fields\<close> property of the
  configuration. The README lists \<open>defaultValue\<close> as optional, and
  the code reads it through \<open>||\<close> and \<open>??\<close>, so a missing property (\<open>undefined\<close>) is
  \<open>None\<close>.
\<close>

datatype Field =
    InputField (placeholder: jsstring) (defaultValue: "jsstring option")
  | SelectField (options: "jsstring list") (defaultValue: "jsstring option")

record RichInputConfig =
  template :: jsstring
  fields_cfg :: "jsstring \<rightharpoonup> Field"

text \<open>\<open>fieldValues: Record<string, string>\<close>.\<close>

type_synonym FieldValues = "jsstring \<rightharpoonup> jsstring"

text \<open>
  \<open>TemplateSegment\<close>: \<open>type: 'text'\<close> carries only \<open>content\<close>, \<open>type: 'field'\<close> also
  \<open>fieldKey\<close> and \<open>fieldConfig\<close>. The \<open>fieldConfig\<close> of a field segment is what
  \<open>props.config.fields[fieldKey]\<close> gave: the own definition of the key, or an object
  inherited from \<open>Object.prototype\<close>. Its \<open>content\<close> is a string, except when the read of
  the store gave an inherited object: that is an \<open>ObjectSegment\<close>, a segment of type
  \<open>field\<close> whose \<open>content\<close> is that object.
\<close>

datatype FieldConfig = OwnField Field | InheritedObject

datatype TemplateSegment =
    TextSegment (content: jsstring)
  | FieldSegment (content: jsstring) (fieldKey: jsstring) (fieldConfig: FieldConfig)
  | ObjectSegment (fieldKey: jsstring) (fieldConfig: FieldConfig)


section \<open>The placeholder pattern\<close>

text \<open>
  \<open>/\{([^}]+)\}/\<close> tried at the start of a string: an opening brace, the longest run of
  code units other than the closing brace, which must not be empty, and a closing brace.
  The run is greedy, and giving part of it back never helps, since the code unit after a
  shorter run is not a closing brace. The result is the captured key.
\<close>

fun match_here :: "jsstring \<Rightarrow> jsstring option" where
  "match_here [] = None"
| "match_here (c # cs) =
     (if c = LBRACE
      then (let key = takeWhile (\<lambda>x. x \<noteq> RBRACE) cs;
                rest = dropWhile (\<lambda>x. x \<noteq> RBRACE) cs
            in if key \<noteq> [] \<and> rest \<noteq> [] then Some key else None)
      else None)"

text \<open>
  \<open>regex.exec(s)\<close> of the global pattern with \<open>regex.lastIndex = i\<close>: the first position
  from \<open>i\<close> on where the pattern matches, with the captured key; \<open>null\<close> is \<open>None\<close>. The
  match covers the key and its two braces, so the new \<open>lastIndex\<close> is
  \<open>index + length key + 2\<close>.
\<close>

function regex_exec :: "jsstring \<Rightarrow> nat \<Rightarrow> (nat \<times> jsstring) option" where
  "regex_exec s i =
     (if length s \<le> i then None
      else (case match_here (drop i s) of
              Some key \<Rightarrow> Some (i, key)
            | None \<Rightarrow> regex_exec s (Suc i)))"
  by pat_completeness auto
termination
  by (relation "measure (\<lambda>(s, i). length s - i)") auto

declare regex_exec.simps [simp del]

definition match_end :: "nat \<Rightarrow> jsstring \<Rightarrow> nat" where
  "match_end index key = index + length key + 2"

lemma match_here_length:
  "match_here s = Some key \<Longrightarrow> length key + 2 \<le> length s"
proof (cases s)
  case Nil
  assume "match_here s = Some key"
  with Nil show ?thesis by simp
next
  case (Cons c cs)
  assume m: "match_here s = Some key"
  let ?P = "\<lambda>x. x \<noteq> RBRACE"
  from m Cons have k: "key = takeWhile ?P cs" and r: "dropWhile ?P cs \<noteq> []"
    by (auto simp: Let_def split: if_splits)
  have "length (takeWhile ?P cs) + length (dropWhile ?P cs) = length cs"
    by (metis length_append takeWhile_dropWhile_id)
  moreover from r have "1 \<le> length (dropWhile ?P cs)"
    by (cases "dropWhile ?P cs") auto
  ultimately show ?thesis using k Cons by simp
qed

lemma regex_exec_bounds:
  "regex_exec s i = Some (index, key) \<Longrightarrow> i \<le> index \<and> match_end index key \<le> length s"
proof (induction s i rule: regex_exec.induct)
  case (1 s i)
  show ?case
  proof (cases "length s \<le> i")
    case True
    with "1.prems" show ?thesis by (simp add: regex_exec.simps)
  next
    case False
    show ?thesis
    proof (cases "match_here (drop i s)")
      case None
      with False "1.prems" have "regex_exec s (Suc i) = Some (index, key)"
        by (simp add: regex_exec.simps)
      with "1.IH" False None show ?thesis by fastforce
    next
      case (Some k)
      with False "1.prems" have e: "index = i" "key = k"
        by (simp_all add: regex_exec.simps)
      from match_here_length [OF Some] False have "length k + 2 \<le> length s - i"
        by simp
      with e False show ?thesis by (simp add: match_end_def)
    qed
  qed
qed

section \<open>The template parser\<close>

text \<open>
  \<open>a || b\<close> for \<open>a\<close> a string or \<open>undefined\<close>: \<open>undefined\<close> and the empty string are
  falsy. \<open>a ?? b\<close>: only \<open>undefined\<close> gives \<open>b\<close>.
\<close>

fun js_or :: "jsstring option \<Rightarrow> jsstring \<Rightarrow> jsstring" where
  "js_or None b = b"
| "js_or (Some a) b = (if a \<noteq> [] then a else b)"

fun js_nullish :: "jsstring option \<Rightarrow> jsstring \<Rightarrow> jsstring" where
  "js_nullish None b = b"
| "js_nullish (Some a) b = a"

text \<open>The template literal \<open>`[${fieldKey}]`\<close>.\<close>

definition bracketed :: "jsstring \<Rightarrow> jsstring" where
  "bracketed key = LBRACKET # key @ [RBRACKET]"

text \<open>
  \<open>fieldValues.value[fieldKey] || fieldConfig.defaultValue || `[${fieldKey}]`\<close>. The read
  of the store decides: an own value that is not empty is the content; an inherited
  object is truthy and is the content itself; otherwise the content is the default of
  the definition when it is a non-empty string (an inherited \<open>fieldConfig\<close> has no
  property \<open>defaultValue\<close>), and the bracketed key when it is not. \<open>resolved_content\<close> is
  the chain over strings alone.
\<close>

definition resolved_content :: "jsstring option \<Rightarrow> jsstring option \<Rightarrow> jsstring \<Rightarrow> jsstring" where
  "resolved_content stored dflt key = js_or stored (js_or dflt (bracketed key))"

fun default_of :: "FieldConfig \<Rightarrow> jsstring option" where
  "default_of (OwnField field) = defaultValue field"
| "default_of InheritedObject = None"

datatype Content = StringContent jsstring | ObjectContent

definition segment_content :: "FieldValues \<Rightarrow> FieldConfig \<Rightarrow> jsstring \<Rightarrow> Content" where
  "segment_content vals fconfig key =
     (case js_get vals key of
        Inherited \<Rightarrow> ObjectContent
      | Own v \<Rightarrow> StringContent (resolved_content (Some v) (default_of fconfig) key)
      | Undefined \<Rightarrow> StringContent (resolved_content None (default_of fconfig) key))"

text \<open>
  The segment pushed for a match whose \<open>fieldConfig\<close> is truthy:
  \<open>{ type: 'field', content, fieldKey, fieldConfig }\<close>.
\<close>

definition field_segment :: "FieldValues \<Rightarrow> FieldConfig \<Rightarrow> jsstring \<Rightarrow> TemplateSegment" where
  "field_segment vals fconfig key =
     (case segment_content vals fconfig key of
        StringContent c \<Rightarrow> FieldSegment c key fconfig
      | ObjectContent \<Rightarrow> ObjectSegment key fconfig)"

text \<open>
  The \<open>while ((match = regex.exec(template)) !== null)\<close> loop of \<open>templateSegments\<close>, with
  its two variables \<open>lastIndex\<close> and \<open>segments\<close>; it returns both when \<open>exec\<close> gives
  \<open>null\<close>. The components of \<open>src/unnamed/part_001\<close> and \<open>src/unnamed/part_002\<close> all have
  this same \<open>templateSegments\<close>.
\<close>

function segments_loop ::
  "RichInputConfig \<Rightarrow> FieldValues \<Rightarrow> nat \<Rightarrow> TemplateSegment list \<Rightarrow> nat \<times> TemplateSegment list"
where
  "segments_loop config vals lastIndex segments =
     (case regex_exec (template config) lastIndex of
        None \<Rightarrow> (lastIndex, segments)
      | Some (index, key) \<Rightarrow>
          (let segments1 =
                 (if index > lastIndex
                  then segments @ [TextSegment (slice (template config) lastIndex index)]
                  else segments);
               segments2 =
                 (case js_get (fields_cfg config) key of
                    Own field \<Rightarrow> segments1 @ [field_segment vals (OwnField field) key]
                  | Inherited \<Rightarrow> segments1 @ [field_segment vals InheritedObject key]
                  | Undefined \<Rightarrow> segments1)
           in segments_loop config vals (match_end index key) segments2))"
  by pat_completeness auto
termination
proof (relation "measure (\<lambda>(config, vals, lastIndex, segments).
                            length (template config) - lastIndex)")
  show "wf (measure (\<lambda>(config, vals, lastIndex, segments).
                            length (template config) - lastIndex))"
    by simp
next
  fix config :: RichInputConfig and vals :: FieldValues
    and lastIndex :: nat and segments :: "TemplateSegment list"
    and x2 :: "nat \<times> jsstring" and index key xa xb
  assume "regex_exec (template config) lastIndex = Some x2" and "(index, key) = x2"
  then have "regex_exec (template config) lastIndex = Some (index, key)"
    by simp
  from regex_exec_bounds [OF this]
  have "lastIndex < match_end index key" and "match_end index key \<le> length (template config)"
    by (simp_all add: match_end_def)
  then show "((config, vals, match_end index key, xb),
         (config, vals, lastIndex, segments))
        \<in> measure (\<lambda>(config, vals, lastIndex, segments).
                      length (template config) - lastIndex)"
    by simp
qed

declare segments_loop.simps [simp del]

definition templateSegments :: "RichInputConfig \<Rightarrow> FieldValues \<Rightarrow> TemplateSegment list" where
  "templateSegments config vals =
     (case segments_loop config vals 0 [] of
        (lastIndex, segments) \<Rightarrow>
          (if lastIndex < length (template config)
           then segments @ [TextSegment (slice_from (template config) lastIndex)]
           else segments))"

section \<open>The template-resolved text\<close>

text \<open>
  \<open>s.replace(regex, replacer)\<close> with the global pattern and a replacer function: the
  matches are found by repeated \<open>exec\<close> from position 0; the result is made of the text
  between the matches and, for each match, of what the replacer returns for the matched
  substring and the captured key; the text after the last match ends it.
\<close>

function replace_loop ::
  "jsstring \<Rightarrow> (jsstring \<Rightarrow> jsstring \<Rightarrow> jsstring) \<Rightarrow> nat \<Rightarrow> jsstring \<Rightarrow> jsstring"
where
  "replace_loop s replacer nextSourcePosition accumulated =
     (case regex_exec s nextSourcePosition of
        None \<Rightarrow> accumulated @ slice_from s nextSourcePosition
      | Some (position, key) \<Rightarrow>
          replace_loop s replacer (match_end position key)
            (accumulated @ slice s nextSourcePosition position
               @ replacer (slice s position (match_end position key)) key))"
  by pat_completeness auto
termination
proof (relation "measure (\<lambda>(s, replacer, nextSourcePosition, accumulated).
                            length s - nextSourcePosition)")
  show "wf (measure (\<lambda>(s, replacer, nextSourcePosition, accumulated).
                            length s - nextSourcePosition))"
    by simp
next
  fix s :: jsstring and replacer :: "jsstring \<Rightarrow> jsstring \<Rightarrow> jsstring"
    and nextSourcePosition :: nat and accumulated :: jsstring
    and x2 :: "nat \<times> jsstring" and position key
  assume "regex_exec s nextSourcePosition = Some x2" and "(position, key) = x2"
  then have "regex_exec s nextSourcePosition = Some (position, key)"
    by simp
  from regex_exec_bounds [OF this]
  have "nextSourcePosition < match_end position key" and "match_end position key \<le> length s"
    by (simp_all add: match_end_def)
  then show "((s, replacer, match_end position key,
          accumulated @ slice s nextSourcePosition position
            @ replacer (slice s position (match_end position key)) key),
         (s, replacer, nextSourcePosition, accumulated))
        \<in> measure (\<lambda>(s, replacer, nextSourcePosition, accumulated).
                      length s - nextSourcePosition)"
    by simp
qed

declare replace_loop.simps [simp del]

definition js_replace :: "jsstring \<Rightarrow> (jsstring \<Rightarrow> jsstring \<Rightarrow> jsstring) \<Rightarrow> jsstring" where
  "js_replace s replacer = replace_loop s replacer 0 []"

text \<open>
  \<open>getCurrentText\<close>, exposed as \<open>getText\<close>: an unknown key gives back \<open>`{${key}}`\<close>, a
  known one \<open>value ?? defaultValue ?? `[${key}]`\<close>. The reads are those of the own
  properties: for a key that names a property of \<open>Object.prototype\<close> and has no own
  entry, the code gets an inherited object, whose conversion to text depends on the
  engine, and such a key is outside this definition. The facts below about
  \<open>getCurrentText\<close> are about keys with own entries and about other names.
\<close>

definition getCurrentText :: "RichInputConfig \<Rightarrow> FieldValues \<Rightarrow> jsstring" where
  "getCurrentText config vals =
     js_replace (template config)
       (\<lambda>matched key.
          (case fields_cfg config key of
             None \<Rightarrow> LBRACE # key @ [RBRACE]
           | Some field \<Rightarrow>
               js_nullish (vals key) (js_nullish (defaultValue field) (bracketed key))))"

section \<open>Placeholders of a template, as the specification words them\<close>


function placeholder_keys :: "jsstring \<Rightarrow> jsstring list" where
  "placeholder_keys [] = []"
| "placeholder_keys (c # cs) =
     (case match_here (c # cs) of
        Some key \<Rightarrow> key # placeholder_keys (drop (Suc (length key)) cs)
      | None \<Rightarrow> placeholder_keys cs)"
  by pat_completeness auto
termination
  by (relation "measure length") auto




section \<open>The component state\<close>

text \<open>
  The reactive variables of the component with the change notification (the second
  component of \<open>src/unnamed/part_002\<close>): \<open>showDropdown\<close>, \<open>currentField\<close>,
  \<open>currentTarget\<close>, \<open>currentOptions\<close>, \<open>dropdownStyle\<close> and \<open>fieldValues\<close>.
  \<open>dropdownStyle\<close> keeps the numbers that the code formats as \<open>`${n}px`\<close>, and
  \<open>currentOptions\<close> the options that the overlay lists.

  \<open>currentTarget\<close> refers to a painted \<open>span.dropdown-field\<close>; the spans are objects that
  the code writes through the reference, so the state holds them by identity
  (\<open>dropdownSpans\<close>). The events sent to the host with \<open>emit('change', payload)\<close> are kept
  in order in \<open>emitted\<close>.
\<close>

record DropdownStyle =
  top_px :: real
  left_px :: real

record DropdownSpan =
  data_field_key :: "jsstring option"
  data_value :: "jsstring option"
  span_textContent :: jsstring

record ChangePayload =
  payload_text :: jsstring
  payload_values :: FieldValues

record Component =
  showDropdown :: bool
  currentField :: jsstring
  currentTarget :: "nat option"
  currentOptions :: "jsstring list"
  dropdownStyle :: DropdownStyle
  fieldValues :: FieldValues
  dropdownSpans :: "nat \<Rightarrow> DropdownSpan"
  emitted :: "ChangePayload list"

text \<open>
  What a handler reads from the live document when it runs: \<open>innerText\<close> of the editable
  area (\<open>None\<close> when \<open>smartInputRef\<close> is \<open>null\<close>), and whether \<open>window.getSelection()\<close>
  gives a selection object.
\<close>

record DomReads =
  innerText :: "jsstring option"
  hasSelection :: bool

definition initial_component :: "(nat \<Rightarrow> DropdownSpan) \<Rightarrow> Component" where
  "initial_component spans =
     \<lparr>showDropdown = False, currentField = [], currentTarget = None, currentOptions = [],
      dropdownStyle = \<lparr>top_px = 0, left_px = 0\<rparr>, fieldValues = Map.empty,
      dropdownSpans = spans, emitted = []\<rparr>"

text \<open>
  \<open>initializeFieldValues\<close>: \<open>newFieldValues[key] = field.defaultValue || ''\<close> for every
  own entry of \<open>props.config.fields\<close>, into a fresh object: each write makes an own
  property, except the one for a field named \<open>__proto__\<close> (the configuration can have it
  as an own entry, from \<open>JSON.parse\<close> for one), which the setter of \<open>Object.prototype\<close>
  takes. The reset of the painted input spans that it schedules for the next tick writes
  to the document only.
\<close>

definition initializeFieldValues :: "RichInputConfig \<Rightarrow> Component \<Rightarrow> Component" where
  "initializeFieldValues config st =
     st\<lparr>fieldValues :=
          (\<lambda>key. case fields_cfg config key of
                    None \<Rightarrow> None
                  | Some field \<Rightarrow>
                      (if key = ascii ''__proto__'' then None
                       else Some (js_or (defaultValue field) [])))\<rparr>"

text \<open>
  \<open>OPTIONS\<close>, and the read \<open>OPTIONS.value[key]\<close>: \<open>options[key] = field.options\<close> for every
  own field of type \<open>select\<close>, into a fresh object. The read gives the options of an own
  select field \<open>key\<close>; for a select field named \<open>__proto__\<close> the write has made its
  options the prototype of the object, and the read of \<open>__proto__\<close> gives them back.
  For another key, the read gives what is inherited from \<open>Object.prototype\<close> when the key
  names one of its properties, and \<open>undefined\<close> when it does not. (With a select field
  named \<open>__proto__\<close>, the object inherits from the array of its options as well: a key
  such as \<open>length\<close>, which is no select field of its own, then reads as a property of
  that array. The definition leaves these reads out: the spans that the component paints
  for the dropdown carry the key of an own select field.)
\<close>

definition OPTIONS :: "RichInputConfig \<Rightarrow> jsstring \<Rightarrow> (jsstring list) JsProp" where
  "OPTIONS config key =
     (case fields_cfg config key of
        Some (SelectField opts d) \<Rightarrow> Own opts
      | _ \<Rightarrow> (if key \<in> set object_prototype_names then Inherited else Undefined))"

text \<open>\<open>raw.replace(...)\<close> with the pattern of the two zero-width markers U+200B and U+FEFF.\<close>

definition strip_markers :: "jsstring \<Rightarrow> jsstring" where
  "strip_markers raw = filter (\<lambda>c. c \<noteq> ZWSP \<and> c \<noteq> ZWNBSP) raw"

text \<open>
  \<open>getDisplayText\<close>: without the editable element it falls back on \<open>getCurrentText\<close>;
  otherwise it is \<open>innerText || ''\<close> without the zero-width markers.
\<close>

definition getDisplayText :: "DomReads \<Rightarrow> RichInputConfig \<Rightarrow> Component \<Rightarrow> jsstring" where
  "getDisplayText reads config st =
     (case innerText reads of
        None \<Rightarrow> getCurrentText config (fieldValues st)
      | Some raw \<Rightarrow> strip_markers raw)"

text \<open>
  \<open>emitChange\<close>: \<open>emit('change', { text: getDisplayText(), values: { ...fieldValues.value } })\<close>.
  The spread copies the own properties of the store. What the host does with the event
  is not part of the component.
\<close>

definition emitChange :: "DomReads \<Rightarrow> RichInputConfig \<Rightarrow> Component \<Rightarrow> Component" where
  "emitChange reads config st =
     st\<lparr>emitted := emitted st
            @ [\<lparr>payload_text = getDisplayText reads config st,
                payload_values = fieldValues st\<rparr>]\<rparr>"


text \<open>\<open>getActiveFieldKey: () => currentField.value\<close>\<close>

definition getActiveFieldKey :: "Component \<Rightarrow> jsstring" where
  "getActiveFieldKey st = currentField st"

section \<open>The dropdown\<close>

text \<open>
  Pixel coordinates are JavaScript numbers, finite doubles far from the largest one;
  they are taken as reals. An addition or a subtraction of the code gives the exact
  result rounded to a double: \<open>fl\<close> is that rounding, a parameter of the functions below
  of which nothing is assumed. \<open>Math.max\<close> and the comparisons round nothing.
\<close>

definition num_add :: "(real \<Rightarrow> real) \<Rightarrow> real \<Rightarrow> real \<Rightarrow> real" where
  "num_add fl x y = fl (x + y)"

definition num_sub :: "(real \<Rightarrow> real) \<Rightarrow> real \<Rightarrow> real \<Rightarrow> real" where
  "num_sub fl x y = fl (x - y)"

text \<open>
  The geometry \<open>showDropdownMenu\<close> measures after \<open>await nextTick()\<close>: the rectangle of the
  clicked span and of the container (\<open>getBoundingClientRect\<close>), the scroll offsets and the
  client width of the container, and the size of the painted overlay, which is \<open>None\<close>
  when \<open>dropdownMenuRef\<close> is \<open>null\<close>.
\<close>

record Rect =
  rect_left :: real
  rect_top :: real
  rect_bottom :: real
  rect_width :: real
  rect_height :: real

record OverlaySize =
  overlay_width :: real
  overlay_height :: real

record Geometry =
  targetRect :: Rect
  containerRect :: Rect
  scrollLeft :: real
  scrollTop :: real
  clientWidth :: real
  overlay :: "OverlaySize option"

text \<open>
  \<open>showDropdownMenu(target, type)\<close>. Before the \<open>await\<close> it sets the four variables of the
  open dropdown; after it, it positions the overlay, unless \<open>containerRef\<close> is \<open>null\<close>
  (\<open>None\<close> for the geometry). This component only pulls the overlay back
  horizontally: it always stays below the clicked span. The two halves are
  \<open>open_dropdown\<close> and \<open>position_dropdown\<close>; \<open>showDropdownMenu\<close> runs one after the other,
  with no other handler in between.
\<close>

text \<open>
  \<open>currentOptions.value = OPTIONS.value[type] || []\<close>: an array is truthy, also an empty
  one. An inherited function or object is truthy as well and becomes the value; the
  overlay, which lists the elements of an array, lists nothing for it.
\<close>

definition listed_options :: "(jsstring list) JsProp \<Rightarrow> jsstring list" where
  "listed_options read =
     (case read of Own opts \<Rightarrow> opts | Inherited \<Rightarrow> [] | Undefined \<Rightarrow> [])"

definition open_dropdown :: "RichInputConfig \<Rightarrow> nat \<Rightarrow> jsstring \<Rightarrow> Component \<Rightarrow> Component" where
  "open_dropdown config target type st =
     st\<lparr>currentTarget := Some target,
        currentField := type,
        currentOptions := listed_options (OPTIONS config type),
        showDropdown := True\<rparr>"

definition position_dropdown :: "(real \<Rightarrow> real) \<Rightarrow> Geometry \<Rightarrow> Component \<Rightarrow> Component" where
  "position_dropdown fl g st =
     (let anchorLeft =
            num_add fl (num_sub fl (rect_left (targetRect g)) (rect_left (containerRect g)))
              (scrollLeft g);
          anchorTop =
            num_add fl
              (num_add fl
                 (num_sub fl (rect_bottom (targetRect g)) (rect_top (containerRect g)))
                 (scrollTop g))
              4;
          style1 = \<lparr>top_px = anchorTop, left_px = anchorLeft\<rparr>;
          style2 =
            (case overlay g of
               None \<Rightarrow> style1
             | Some ov \<Rightarrow>
                 (let dropdownWidth = overlay_width ov;
                      containerWidth = clientWidth g;
                      predictedRight = num_add fl anchorLeft dropdownWidth
                  in if predictedRight > containerWidth
                     then (let adjustment =
                                 num_add fl (num_sub fl predictedRight containerWidth) 10
                           in style1\<lparr>left_px := max (num_sub fl anchorLeft adjustment) 0\<rparr>)
                     else style1))
      in st\<lparr>dropdownStyle := style2\<rparr>)"

definition showDropdownMenu ::
  "(real \<Rightarrow> real) \<Rightarrow> RichInputConfig \<Rightarrow> Geometry option \<Rightarrow> nat \<Rightarrow> jsstring
     \<Rightarrow> Component \<Rightarrow> Component"
where
  "showDropdownMenu fl config geometry target type st =
     (let st1 = open_dropdown config target type st
      in case geometry of
           None \<Rightarrow> st1
         | Some g \<Rightarrow> position_dropdown fl g st1)"

text \<open>
  \<open>showDropdownMenu\<close> of the component of \<open>src/unnamed/part_001\<close>, which has no scroll
  compensation and checks both edges of the container: past the right edge the overlay
  is pulled back, past the bottom edge it is put above the clicked span.
\<close>

definition position_dropdown_part_001 ::
  "(real \<Rightarrow> real) \<Rightarrow> Geometry \<Rightarrow> Component \<Rightarrow> Component"
where
  "position_dropdown_part_001 fl g st =
     (let relativeTop = num_sub fl (rect_bottom (targetRect g)) (rect_top (containerRect g));
          relativeLeft = num_sub fl (rect_left (targetRect g)) (rect_left (containerRect g));
          style1 = \<lparr>top_px = num_add fl relativeTop 4, left_px = relativeLeft\<rparr>;
          style3 =
            (case overlay g of
               None \<Rightarrow> style1
             | Some ov \<Rightarrow>
                 (let dropdownWidth = overlay_width ov;
                      dropdownHeight = overlay_height ov;
                      predictedRight = num_add fl relativeLeft dropdownWidth;
                      predictedBottom = num_add fl (num_add fl relativeTop 4) dropdownHeight;
                      containerWidth = rect_width (containerRect g);
                      style2 =
                        (if predictedRight > containerWidth
                         then (let adjustment =
                                     num_add fl (num_sub fl predictedRight containerWidth) 10
                               in style1\<lparr>left_px :=
                                            max (num_sub fl relativeLeft adjustment) 0\<rparr>)
                         else style1);
                      containerHeight = rect_height (containerRect g)
                  in if predictedBottom > containerHeight
                     then (let relativeTopAbove =
                                 num_sub fl
                                   (num_sub fl (rect_top (targetRect g))
                                      (rect_top (containerRect g)))
                                   dropdownHeight
                           in style2\<lparr>top_px := max (num_sub fl relativeTopAbove 4) 0\<rparr>)
                     else style2))
      in st\<lparr>dropdownStyle := style3\<rparr>)"

definition showDropdownMenu_part_001 ::
  "(real \<Rightarrow> real) \<Rightarrow> RichInputConfig \<Rightarrow> Geometry option \<Rightarrow> nat \<Rightarrow> jsstring
     \<Rightarrow> Component \<Rightarrow> Component"
where
  "showDropdownMenu_part_001 fl config geometry target type st =
     (let st1 = open_dropdown config target type st
      in case geometry of
           None \<Rightarrow> st1
         | Some g \<Rightarrow> position_dropdown_part_001 fl g st1)"

text \<open>
  \<open>handleDropdownClick\<close>: the clicked span is \<open>event.currentTarget\<close>; the dropdown opens
  when its \<open>data-field-key\<close> is a non-empty string and \<open>OPTIONS.value[fieldKey]\<close> is
  truthy, which every value but \<open>undefined\<close> is there.
\<close>

definition handleDropdownClick ::
  "(real \<Rightarrow> real) \<Rightarrow> RichInputConfig \<Rightarrow> Geometry option \<Rightarrow> nat \<Rightarrow> Component \<Rightarrow> Component"
where
  "handleDropdownClick fl config geometry target st =
     (case data_field_key (dropdownSpans st target) of
        None \<Rightarrow> st
      | Some key \<Rightarrow>
          (if key \<noteq> [] \<and> OPTIONS config key \<noteq> Undefined
           then showDropdownMenu fl config geometry target key st
           else st))"

text \<open>\<open>hideDropdown\<close>\<close>

definition hideDropdown :: "Component \<Rightarrow> Component" where
  "hideDropdown st = st\<lparr>showDropdown := False, currentTarget := None, currentOptions := []\<rparr>"

text \<open>
  \<open>selectOption(option)\<close>: with a non-empty \<open>currentField\<close> and a \<open>currentTarget\<close> it writes
  the store, \<open>fieldValues.value[currentField.value] = option\<close>, and the clicked span;
  then, in every case, \<open>emitChange()\<close> and \<open>hideDropdown()\<close>.
\<close>

definition selectOption ::
  "DomReads \<Rightarrow> RichInputConfig \<Rightarrow> jsstring \<Rightarrow> Component \<Rightarrow> Component"
where
  "selectOption reads config option st =
     (let st1 =
            (case currentTarget st of
               None \<Rightarrow> st
             | Some target \<Rightarrow>
                 (if currentField st \<noteq> []
                  then st\<lparr>fieldValues := js_set (fieldValues st) (currentField st) option,
                          dropdownSpans := (dropdownSpans st)
                            (target := (dropdownSpans st target)
                               \<lparr>span_textContent := option, data_value := Some option\<rparr>)\<rparr>
                  else st))
      in hideDropdown (emitChange reads config st1))"

text \<open>
  \<open>handleClickOutside\<close>: nothing unless the dropdown shows; then
  \<open>dropdownMenuRef.value?.contains(target)\<close> is read, \<open>undefined\<close> (\<open>None\<close>) when the ref is
  \<open>null\<close>, and anything but \<open>true\<close> hides the dropdown.
\<close>

definition handleClickOutside :: "bool option \<Rightarrow> Component \<Rightarrow> Component" where
  "handleClickOutside isClickInsideDropdown st =
     (if \<not> showDropdown st then st
      else if isClickInsideDropdown \<noteq> Some True then hideDropdown st
      else st)"

section \<open>The editable field\<close>

text \<open>
  The nodes of the live document that the handlers of an editable field walk: text
  nodes, comment nodes (the rendering leaves them for an empty branch) and elements with
  their child nodes.
\<close>

datatype Node =
    TextNode jsstring
  | CommentNode jsstring
  | ElementNode "Node list"

text \<open>
  The text of a subtree, which is what \<open>textContent\<close> of an element concatenates over its
  child nodes: the data of the text nodes in document order, comments left out.
\<close>

fun subtree_text :: "Node \<Rightarrow> jsstring" where
  "subtree_text (TextNode s) = s"
| "subtree_text (CommentNode s) = []"
| "subtree_text (ElementNode cs) = concat (map subtree_text cs)"








text \<open>
  \<open>handleEditableField(target)\<close> runs on every click on the field. Each run makes a
  closure of its own: the \<open>inputSpan\<close> it found in \<open>target\<close>, its flag
  \<open>isProgrammaticChange\<close>, its functions \<open>ensureInputElement\<close> and \<open>handleChange\<close>, a
  mutation observer on \<open>inputSpan\<close>, and one listener for each of \<open>keydown\<close>, \<open>input\<close>,
  \<open>paste\<close>, \<open>cut\<close> and \<open>blur\<close>, which is never removed. \<open>flagTimers\<close> counts the pending
  \<open>setTimeout\<close> callbacks that clear the flag of the closure, \<open>changeTimers\<close> its pending
  \<open>setTimeout(handleChange, 0)\<close>.
\<close>

record Closure =
  inputSpan :: nat
  isProgrammaticChange :: bool
  flagTimers :: nat
  changeTimers :: nat










text \<open>The callback of \<open>setTimeout(() => { isProgrammaticChange = false }, 0)\<close>.\<close>

definition clear_flag :: "Closure \<Rightarrow> Closure" where
  "clear_flag closure =
     closure\<lparr>isProgrammaticChange := False, flagTimers := flagTimers closure - 1\<rparr>"

text \<open>
  The text nodes below a node, in document order, each with its path of child indices
  from the node and its data: what a \<open>TreeWalker\<close> with \<open>NodeFilter.SHOW_TEXT\<close> visits
  through \<open>nextNode()\<close>.
\<close>

fun subtree_texts :: "Node \<Rightarrow> (nat list \<times> jsstring) list"
  and children_texts :: "nat \<Rightarrow> Node list \<Rightarrow> (nat list \<times> jsstring) list"
where
  "subtree_texts (TextNode s) = [([], s)]"
| "subtree_texts (CommentNode s) = []"
| "subtree_texts (ElementNode cs) = children_texts 0 cs"
| "children_texts i [] = []"
| "children_texts i (c # cs) =
     map (\<lambda>(path, s). (i # path, s)) (subtree_texts c) @ children_texts (Suc i) cs"









text \<open>
  The listener that \<open>handleEditableField\<close> registers on \<open>target\<close> for \<open>keydown\<close>, \<open>input\<close>,
  \<open>paste\<close>, \<open>cut\<close> and \<open>blur\<close>. On \<open>keydown\<close> with \<open>Backspace\<close> or \<open>Delete\<close> in a field whose
  input span holds nothing but markers and white space, the field is removed; with one of
  the two keys otherwise, \<open>handleChange\<close> is deferred; every other event runs
  \<open>handleChange\<close>. The component of \<open>src/unnamed/part_001\<close> registers the same listener on
  the input span, around its own \<open>handleChange\<close>.
\<close>

datatype FieldEvent = Keydown jsstring | Input | Paste | Cut | Blur








section \<open>Example configurations and states\<close>

text \<open>
  The configurations, stores and document states at which the claims are evaluated:
  a template with an unknown key, the greeting \<open>Hi {name}!\<close> with a free-text field, and
  a \<open>topic\<close> field with three options.
\<close>

definition no_fields :: "jsstring \<rightharpoonup> Field" where
  "no_fields = Map.empty"

definition no_values :: FieldValues where
  "no_values = Map.empty"

definition unknown_key_config :: RichInputConfig where
  "unknown_key_config = \<lparr>template = ascii ''{unknownKey}'', fields_cfg = no_fields\<rparr>"

definition unknown_between_config :: RichInputConfig where
  "unknown_between_config = \<lparr>template = ascii ''Hi {who}!'', fields_cfg = no_fields\<rparr>"




definition topic_field :: Field where
  "topic_field = SelectField [ascii ''A'', ascii ''B'', ascii ''C''] (Some (ascii ''A''))"

definition topic_config :: RichInputConfig where
  "topic_config = \<lparr>template = ascii ''{topic}'',
                     fields_cfg = no_fields(ascii ''topic'' \<mapsto> topic_field)\<rparr>"







definition topic_span :: DropdownSpan where
  "topic_span = \<lparr>data_field_key = Some (ascii ''topic''), data_value = Some (ascii ''A''),
                  span_textContent = ascii ''A''\<rparr>"

definition mounted_reads :: DomReads where
  "mounted_reads = \<lparr>innerText = Some (ascii ''C''), hasSelection = True\<rparr>"

definition topic_mounted :: Component where
  "topic_mounted = initializeFieldValues topic_config (initial_component (\<lambda>i. topic_span))"

text \<open>The numbers of the examples are small integers, on which the arithmetic is exact.\<close>

definition exact :: "real \<Rightarrow> real" where
  "exact x = x"

definition topic_opened :: Component where
  "topic_opened = handleDropdownClick exact topic_config None 0 topic_mounted"

definition topic_selected :: Component where
  "topic_selected = selectOption mounted_reads topic_config (ascii ''C'') topic_opened"

definition topic_dismissed :: Component where
  "topic_dismissed = handleClickOutside (Some False) topic_opened"

definition crowded_geometry :: Geometry where
  "crowded_geometry =
     \<lparr>targetRect = \<lparr>rect_left = 10, rect_top = 90, rect_bottom = 100,
                      rect_width = 40, rect_height = 10\<rparr>,
      containerRect = \<lparr>rect_left = 0, rect_top = 0, rect_bottom = 110,
                         rect_width = 300, rect_height = 110\<rparr>,
      scrollLeft = 0, scrollTop = 0, clientWidth = 300,
      overlay = Some \<lparr>overlay_width = 80, overlay_height = 50\<rparr>\<rparr>"

















section \<open>Facts about the pattern and the two loops\<close>

declare match_here.simps(2) [simp del]









lemma regex_exec_keys_None:
  "regex_exec s i = None \<Longrightarrow> placeholder_keys (drop i s) = []"
proof (induction s i rule: regex_exec.induct)
  case (1 s i)
  show ?case
  proof (cases "length s \<le> i")
    case True
    then show ?thesis by simp
  next
    case False
    then have d: "drop i s = s ! i # drop (Suc i) s"
      by (simp add: Cons_nth_drop_Suc)
    from False "1.prems" have m: "match_here (drop i s) = None"
      and e: "regex_exec s (Suc i) = None"
      by (auto simp: regex_exec.simps [of s i] split: option.splits)
    from "1.IH" [OF False m e]
    have "placeholder_keys (drop (Suc i) s) = []" .
    moreover from m d have "match_here (s ! i # drop (Suc i) s) = None" by simp
    ultimately show ?thesis by (simp add: d)
  qed
qed





















section \<open>Facts about the dropdown\<close>




section \<open>Facts about the editable field\<close>













lemma texts_text:
  "concat (map snd (subtree_texts node)) = subtree_text node"
  "concat (map snd (children_texts i nodes)) = concat (map subtree_text nodes)"
  by (induction node and i nodes rule: subtree_texts_children_texts.induct)
     (simp_all add: case_prod_unfold comp_def)




section \<open>Claims about the template parser\<close>

text \<open>
  C1. A placeholder \<open>{k}\<close> whose key has no field definition should give no field segment
  and leave its characters \<open>{k}\<close> in a text segment, joined with the text around it. The
  parser pushes nothing for such a match and still moves \<open>lastIndex\<close> past it, so the
  characters are lost: the template \<open>{unknownKey}\<close> with no field parses to no segment
  at all, and in \<open>Hi {who}!\<close> the texts on both sides become two separate text segments
  with nothing between them. \<open>getCurrentText\<close>, on the same template, gives the
  characters back.
\<close>

theorem unknown_key_dropped:
  "templateSegments unknown_key_config no_values = []
   \<and> getCurrentText unknown_key_config no_values = ascii ''{unknownKey}''
   \<and> templateSegments unknown_between_config no_values
       = [TextSegment (ascii ''Hi ''), TextSegment (ascii ''!'')]"
proof -
  have "templateSegments unknown_key_config no_values = []"
    by (simp add: unknown_key_config_def no_fields_def
        templateSegments_def segments_loop.simps regex_exec.simps match_here.simps(2)
        match_end_def slice_def slice_from_def js_get_def object_prototype_names_def
        field_segment_def segment_content_def resolved_content_def bracketed_def
        ascii_def LBRACE_def RBRACE_def LBRACKET_def RBRACKET_def)
  moreover have "getCurrentText unknown_key_config no_values = ascii ''{unknownKey}''"
    by (simp add: unknown_key_config_def no_fields_def
        getCurrentText_def js_replace_def replace_loop.simps regex_exec.simps
        match_here.simps(2) match_end_def slice_def slice_from_def bracketed_def
        ascii_def LBRACE_def RBRACE_def LBRACKET_def RBRACKET_def)
  moreover have "templateSegments unknown_between_config no_values
       = [TextSegment (ascii ''Hi ''), TextSegment (ascii ''!'')]"
    by (simp add: unknown_between_config_def no_fields_def
        templateSegments_def segments_loop.simps regex_exec.simps match_here.simps(2)
        match_end_def slice_def slice_from_def js_get_def object_prototype_names_def
        field_segment_def segment_content_def resolved_content_def bracketed_def
        ascii_def LBRACE_def RBRACE_def LBRACKET_def RBRACKET_def)
  ultimately show ?thesis by blast
qed










section \<open>Claims about the dropdown\<close>




text \<open>
  C7. With no dropdown open, \<open>getActiveFieldKey\<close> should give the empty string.
  \<open>hideDropdown\<close> resets \<open>showDropdown\<close>, \<open>currentTarget\<close> and \<open>currentOptions\<close> and leaves
  \<open>currentField\<close> as it is: after the dropdown of \<open>topic\<close> is closed by a selection, or by
  an interaction outside it, no dropdown is open and \<open>getActiveFieldKey\<close> still gives
  \<open>topic\<close>.
\<close>

theorem stale_active_field_key:
  "\<not> showDropdown topic_selected
   \<and> getActiveFieldKey topic_selected = ascii ''topic''
   \<and> \<not> showDropdown topic_dismissed
   \<and> getActiveFieldKey topic_dismissed = ascii ''topic''"
  by (simp add: topic_selected_def topic_dismissed_def topic_opened_def topic_mounted_def
        topic_span_def topic_config_def topic_field_def no_fields_def
        initializeFieldValues_def initial_component_def
        handleDropdownClick_def showDropdownMenu_def open_dropdown_def OPTIONS_def
        listed_options_def js_set_def
        selectOption_def emitChange_def hideDropdown_def handleClickOutside_def
        getActiveFieldKey_def Let_def ascii_def)

text \<open>
  C9. With the dropdown open and an interaction whose target is not inside the overlay
  element, \<open>handleClickOutside\<close> closes the dropdown, leaves the store as it is and emits
  nothing; with no dropdown open it leaves the whole state as it is.
\<close>

theorem outside_interaction:
  "(showDropdown st \<and> isClickInsideDropdown \<noteq> Some True \<longrightarrow>
      \<not> showDropdown (handleClickOutside isClickInsideDropdown st)
      \<and> fieldValues (handleClickOutside isClickInsideDropdown st) = fieldValues st
      \<and> emitted (handleClickOutside isClickInsideDropdown st) = emitted st)
   \<and> (\<not> showDropdown st \<longrightarrow> handleClickOutside isClickInsideDropdown st = st)"
proof (intro conjI impI)
  assume o: "showDropdown st \<and> isClickInsideDropdown \<noteq> Some True"
  then have h: "handleClickOutside isClickInsideDropdown st = hideDropdown st"
    by (simp add: handleClickOutside_def)
  show "\<not> showDropdown (handleClickOutside isClickInsideDropdown st)"
    by (simp add: h hideDropdown_def)
  show "fieldValues (handleClickOutside isClickInsideDropdown st) = fieldValues st"
    by (simp add: h hideDropdown_def)
  show "emitted (handleClickOutside isClickInsideDropdown st) = emitted st"
    by (simp add: h hideDropdown_def)
next
  assume "\<not> showDropdown st"
  then show "handleClickOutside isClickInsideDropdown st = st"
    by (simp add: handleClickOutside_def)
qed

text \<open>C9 on the dropdown of \<open>topic\<close>, open and not open.\<close>

theorem outside_interaction_witness:
  "showDropdown topic_opened
   \<and> \<not> showDropdown (handleClickOutside (Some False) topic_opened)
   \<and> fieldValues (handleClickOutside (Some False) topic_opened) = fieldValues topic_opened
   \<and> fieldValues topic_opened (ascii ''topic'') = Some (ascii ''A'')
   \<and> \<not> showDropdown topic_mounted
   \<and> handleClickOutside (Some False) topic_mounted = topic_mounted"
proof -
  have o: "showDropdown topic_opened"
    by (simp add: topic_opened_def topic_mounted_def topic_span_def topic_config_def
          topic_field_def no_fields_def initializeFieldValues_def initial_component_def
          handleDropdownClick_def showDropdownMenu_def open_dropdown_def OPTIONS_def
          listed_options_def ascii_def)
  have v: "fieldValues topic_opened (ascii ''topic'') = Some (ascii ''A'')"
    by (simp add: topic_opened_def topic_mounted_def topic_span_def topic_config_def
          topic_field_def no_fields_def initializeFieldValues_def initial_component_def
          handleDropdownClick_def showDropdownMenu_def open_dropdown_def OPTIONS_def
          listed_options_def ascii_def)
  have c: "\<not> showDropdown topic_mounted"
    by (simp add: topic_mounted_def initializeFieldValues_def initial_component_def)
  from outside_interaction [of topic_opened "Some False"] o
  have 1: "\<not> showDropdown (handleClickOutside (Some False) topic_opened)"
    and 2: "fieldValues (handleClickOutside (Some False) topic_opened) = fieldValues topic_opened"
    by simp_all
  from outside_interaction [of topic_mounted "Some False"] c
  have 3: "handleClickOutside (Some False) topic_mounted = topic_mounted"
    by simp
  show ?thesis by (intro conjI) (rule o 1 2 v c 3)+
qed

text \<open>
  C6, as stated, fails on the component with the change notification, which only
  corrects the horizontal position: a span whose bottom is 100 below the top of a
  container 110 high gets its overlay, 50 high, at 104, below the span and past the
  bottom edge of the container.
\<close>

theorem overlay_stays_below_counterexample:
  "rect_height (containerRect crowded_geometry)
     < top_px (dropdownStyle (showDropdownMenu exact topic_config (Some crowded_geometry) 0
                 (ascii ''topic'') topic_mounted)) + 50
   \<and> top_px (dropdownStyle (showDropdownMenu exact topic_config (Some crowded_geometry) 0
                 (ascii ''topic'') topic_mounted)) = 104
   \<and> rect_bottom (targetRect crowded_geometry) - rect_top (containerRect crowded_geometry)
       = 100"
  by (simp add: crowded_geometry_def showDropdownMenu_def position_dropdown_def
        open_dropdown_def num_add_def num_sub_def exact_def Let_def)

text \<open>
  C6, amended. In the component of \<open>src/unnamed/part_001\<close>, when the bottom edge of the
  overlay placed below the clicked span, as the code computes it in doubles (the bottom
  of the span less the top of the container, plus the gap of 4, plus the height of the
  overlay, each result rounded), is greater than the height of the container, the
  overlay is put above the span: its top is the top of the span less the top of the
  container, less the height of the overlay, less the gap of 4, each result rounded, and
  not less than 0, the top edge of the container. When these three subtractions are
  exact, the top is the exact difference, floored at 0, and, unless that floor applies,
  the bottom edge of the overlay is 4 above the top of the span. In the component with
  the change notification the overlay is always placed below the span: its top is the
  bottom of the span less the top of the container, plus the scroll offset, plus 4, each
  result rounded.
\<close>

theorem overlay_vertical_position:
  "(overlay g = Some ov \<and>
    rect_height (containerRect g)
      < fl (fl (fl (rect_bottom (targetRect g) - rect_top (containerRect g)) + 4)
              + overlay_height ov) \<longrightarrow>
      top_px (dropdownStyle (showDropdownMenu_part_001 fl config (Some g) target type st))
        = max (fl (fl (fl (rect_top (targetRect g) - rect_top (containerRect g))
                         - overlay_height ov) - 4)) 0
      \<and> 0 \<le> top_px (dropdownStyle
                  (showDropdownMenu_part_001 fl config (Some g) target type st))
      \<and> (fl (rect_top (targetRect g) - rect_top (containerRect g))
             = rect_top (targetRect g) - rect_top (containerRect g)
           \<and> fl (rect_top (targetRect g) - rect_top (containerRect g) - overlay_height ov)
             = rect_top (targetRect g) - rect_top (containerRect g) - overlay_height ov
           \<and> fl (rect_top (targetRect g) - rect_top (containerRect g) - overlay_height ov - 4)
             = rect_top (targetRect g) - rect_top (containerRect g) - overlay_height ov - 4
           \<longrightarrow>
           top_px (dropdownStyle
               (showDropdownMenu_part_001 fl config (Some g) target type st))
             = max (rect_top (targetRect g) - rect_top (containerRect g)
                      - overlay_height ov - 4) 0
           \<and> (0 \<le> rect_top (targetRect g) - rect_top (containerRect g)
                       - overlay_height ov - 4 \<longrightarrow>
                top_px (dropdownStyle
                    (showDropdownMenu_part_001 fl config (Some g) target type st))
                  + overlay_height ov
                = rect_top (targetRect g) - rect_top (containerRect g) - 4)))
   \<and> top_px (dropdownStyle (showDropdownMenu fl config (Some g) target type st))
       = fl (fl (fl (rect_bottom (targetRect g) - rect_top (containerRect g)) + scrollTop g)
               + 4)"
proof -
  let ?above = "showDropdownMenu_part_001 fl config (Some g) target type st"
  let ?d = "rect_top (targetRect g) - rect_top (containerRect g)"
  let ?h = "overlay_height ov"
  have below:
    "top_px (dropdownStyle (showDropdownMenu fl config (Some g) target type st))
       = fl (fl (fl (rect_bottom (targetRect g) - rect_top (containerRect g)) + scrollTop g)
               + 4)"
    by (cases "overlay g")
       (simp_all add: showDropdownMenu_def position_dropdown_def open_dropdown_def
          num_add_def num_sub_def Let_def)
  have above: "top_px (dropdownStyle ?above) = max (fl (fl (fl ?d - ?h) - 4)) 0"
    if "overlay g = Some ov \<and>
        rect_height (containerRect g)
          < fl (fl (fl (rect_bottom (targetRect g) - rect_top (containerRect g)) + 4) + ?h)"
    using that
    by (simp add: showDropdownMenu_part_001_def position_dropdown_part_001_def
          open_dropdown_def num_add_def num_sub_def Let_def)
  have exact_top: "max (fl (fl (fl ?d - ?h) - 4)) 0 = max (?d - ?h - 4) 0"
    if "fl ?d = ?d \<and> fl (?d - ?h) = ?d - ?h \<and> fl (?d - ?h - 4) = ?d - ?h - 4"
    using that by simp
  show ?thesis
  proof (intro conjI impI)
    assume h: "overlay g = Some ov \<and>
        rect_height (containerRect g)
          < fl (fl (fl (rect_bottom (targetRect g) - rect_top (containerRect g)) + 4) + ?h)"
    show "top_px (dropdownStyle ?above) = max (fl (fl (fl ?d - ?h) - 4)) 0"
      by (rule above [OF h])
    show "0 \<le> top_px (dropdownStyle ?above)"
      by (simp add: above [OF h])
    assume e: "fl ?d = ?d \<and> fl (?d - ?h) = ?d - ?h \<and> fl (?d - ?h - 4) = ?d - ?h - 4"
    show "top_px (dropdownStyle ?above) = max (?d - ?h - 4) 0"
      by (simp only: above [OF h] exact_top [OF e])
    assume "0 \<le> ?d - ?h - 4"
    then show "top_px (dropdownStyle ?above) + ?h = ?d - 4"
      by (simp add: above [OF h] exact_top [OF e])
  next
    show "top_px (dropdownStyle (showDropdownMenu fl config (Some g) target type st))
       = fl (fl (fl (rect_bottom (targetRect g) - rect_top (containerRect g)) + scrollTop g)
               + 4)"
      by (rule below)
  qed
qed

text \<open>
  The amended C6 on the same geometry, whose numbers are small integers: 36 in one
  component, 104 in the other.
\<close>

theorem overlay_vertical_position_witness:
  "overlay crowded_geometry = Some \<lparr>overlay_width = 80, overlay_height = 50\<rparr>
   \<and> rect_height (containerRect crowded_geometry)
      < exact (exact (exact (rect_bottom (targetRect crowded_geometry)
                               - rect_top (containerRect crowded_geometry)) + 4) + 50)
   \<and> top_px (dropdownStyle (showDropdownMenu_part_001 exact topic_config
                 (Some crowded_geometry) 0 (ascii ''topic'') topic_mounted)) = 36
   \<and> top_px (dropdownStyle (showDropdownMenu exact topic_config (Some crowded_geometry) 0
                 (ascii ''topic'') topic_mounted)) = 104"
proof -
  let ?ov = "\<lparr>overlay_width = 80, overlay_height = 50\<rparr>"
  have o: "overlay crowded_geometry = Some ?ov"
    by (simp add: crowded_geometry_def)
  have h: "rect_height (containerRect crowded_geometry)
      < exact (exact (exact (rect_bottom (targetRect crowded_geometry)
                               - rect_top (containerRect crowded_geometry)) + 4) + 50)"
    by (simp add: crowded_geometry_def exact_def)
  then have h': "rect_height (containerRect crowded_geometry)
      < exact (exact (exact (rect_bottom (targetRect crowded_geometry)
                               - rect_top (containerRect crowded_geometry)) + 4)
                 + overlay_height ?ov)"
    by simp
  from overlay_vertical_position [of crowded_geometry ?ov exact
      topic_config 0 "ascii ''topic''" topic_mounted] o h'
  have "top_px (dropdownStyle (showDropdownMenu_part_001 exact topic_config
                 (Some crowded_geometry) 0 (ascii ''topic'') topic_mounted))
          = max (exact (exact (exact (rect_top (targetRect crowded_geometry)
                                        - rect_top (containerRect crowded_geometry))
                   - overlay_height ?ov) - 4)) 0"
    and b: "top_px (dropdownStyle (showDropdownMenu exact topic_config (Some crowded_geometry) 0
                 (ascii ''topic'') topic_mounted))
          = exact (exact (exact (rect_bottom (targetRect crowded_geometry)
                                   - rect_top (containerRect crowded_geometry))
                     + scrollTop crowded_geometry) + 4)"
    by blast+
  then have a: "top_px (dropdownStyle (showDropdownMenu_part_001 exact topic_config
                   (Some crowded_geometry) 0 (ascii ''topic'') topic_mounted)) = 36"
    by (simp add: crowded_geometry_def exact_def)
  from b have b': "top_px (dropdownStyle (showDropdownMenu exact topic_config
                 (Some crowded_geometry) 0 (ascii ''topic'') topic_mounted)) = 104"
    by (simp add: crowded_geometry_def exact_def)
  show ?thesis by (intro conjI) (rule o h a b')+
qed

section \<open>Claims about the editable field\<close>







end
